theory Spec2Isabelle
  imports Main "HOL-Library.AList"
begin

section \<open>Paths\<close>

text \<open>
  \<^verbatim>\<open>repository.py\<close> computes its directories with \<^verbatim>\<open>os.path.join\<close> and
  \<^verbatim>\<open>os.path.abspath\<close>. These are the POSIX versions of the Python library
  (\<^verbatim>\<open>posixpath\<close>), written out on strings so that concrete paths can be evaluated.
  The working directory, which \<^verbatim>\<open>abspath\<close> reads from the process, is an argument.
\<close>

type_synonym path = string

definition isabs :: "path \<Rightarrow> bool" where
  "isabs s = (case s of [] \<Rightarrow> False | c # _ \<Rightarrow> c = CHR ''/'')"

definition join :: "path \<Rightarrow> path \<Rightarrow> path" where
  "join a b =
     (if isabs b then b
      else if a = [] \<or> last a = CHR ''/'' then a @ b
      else a @ ''/'' @ b)"

text \<open>\<^verbatim>\<open>path.split('/')\<close> and \<^verbatim>\<open>'/'.join(comps)\<close>.\<close>

fun split_slash :: "string \<Rightarrow> string list" where
  "split_slash [] = [[]]"
| "split_slash (c # cs) =
     (if c = CHR ''/'' then [] # split_slash cs
      else (case split_slash cs of [] \<Rightarrow> [[c]] | x # xs \<Rightarrow> (c # x) # xs))"

fun join_slash :: "string list \<Rightarrow> string" where
  "join_slash [] = []"
| "join_slash [x] = x"
| "join_slash (x # y # ys) = x @ ''/'' @ join_slash (y # ys)"

text \<open>One round of the loop of \<^verbatim>\<open>normpath\<close> over the components.\<close>

definition norm_step :: "nat \<Rightarrow> string list \<Rightarrow> string \<Rightarrow> string list" where
  "norm_step initial_slashes new_comps part =
     (if part = [] \<or> part = ''.'' then new_comps
      else if part \<noteq> ''..'' \<or> (initial_slashes = 0 \<and> new_comps = [])
                \<or> (new_comps \<noteq> [] \<and> last new_comps = ''..'')
           then new_comps @ [part]
      else if new_comps \<noteq> [] then butlast new_comps
      else new_comps)"

definition normpath :: "path \<Rightarrow> path" where
  "normpath p =
     (if p = [] then ''.''
      else
        let initial_slashes =
              (if isabs p
               then (if take 2 p = ''//'' \<and> take 3 p \<noteq> ''///'' then 2 else 1)
               else 0);
            comps = foldl (norm_step initial_slashes) [] (split_slash p);
            q = replicate initial_slashes CHR ''/'' @ join_slash comps
        in if q = [] then ''.'' else q)"

definition abspath :: "path \<Rightarrow> path \<Rightarrow> path" where
  "abspath cwd p = normpath (if isabs p then p else join cwd p)"

section \<open>Repository.resolve\<close>

definition default_directory :: string where
  "default_directory = ''.gitpress''"

text \<open>
  \<^verbatim>\<open>Repository.resolve(content_directory=None, repo_directory=None)\<close>: an omitted
  argument is \<open>None\<close>. The first branch returns before any normalisation.
\<close>

definition resolve :: "path \<Rightarrow> path option \<Rightarrow> path option \<Rightarrow> path \<times> path" where
  "resolve cwd content_directory repo_directory =
     (case (content_directory, repo_directory) of
        (None, Some r) \<Rightarrow> (join r ''..'', r)
      | _ \<Rightarrow>
          let c = (case content_directory of None \<Rightarrow> ''.'' | Some c \<Rightarrow> c);
              r = (case repo_directory of None \<Rightarrow> default_directory | Some r \<Rightarrow> r);
              c = abspath cwd c
          in (c, join c r))"

section \<open>Errors\<close>

text \<open>
  Modelled from the spec: the error kinds of \<^verbatim>\<open>gitpress/exceptions.py\<close>, which is not
  among the sources. Each kind is a distinct signal, none a subclass of another
  (spec, section 7). \<open>TypeError\<close>, \<open>AttributeError\<close> and \<open>ImportError\<close> are Python's own;
  \<open>ConfigError\<close> is the hard error of a strict config read, and \<open>OtherError\<close>
  stands for every other exception a collaborator may raise (\<^verbatim>\<open>OSError\<close>, a parse
  error of the config file, ...).
\<close>

datatype error =
    RepositoryNotFoundError path
  | InvalidRepositoryError path string
  | PresenterNotFoundError string
  | ThemeNotFoundError string
  | RepositoryAlreadyExistsError path path
  | TypeError string
  | AttributeError string
  | ImportError string
  | ConfigError string
  | OtherError string

section \<open>The world outside the process\<close>

text \<open>
  The file system as the code observes it: \<open>dirs w p\<close> is the listing of \<open>p\<close> when
  \<open>p\<close> is a directory (\<^verbatim>\<open>os.path.isdir\<close>, \<^verbatim>\<open>os.listdir\<close>) and \<open>None\<close> otherwise;
  \<open>files w p\<close> holds when \<open>p\<close> is a file.
\<close>

record fs =
  getcwd :: path
  dirs :: "path \<Rightarrow> string list option"
  files :: "path \<Rightarrow> bool"

definition isdir :: "fs \<Rightarrow> path \<Rightarrow> bool" where
  "isdir w p = (dirs w p \<noteq> None)"

definition path_exists :: "fs \<Rightarrow> path \<Rightarrow> bool" where
  "path_exists w p = (isdir w p \<or> files w p)"

text \<open>An operation with effects: it may raise, and it leaves a new world either way.\<close>

type_synonym 'a io = "fs \<Rightarrow> (error + 'a) \<times> fs"

definition bind_io :: "'a io \<Rightarrow> ('a \<Rightarrow> 'b io) \<Rightarrow> 'b io" where
  "bind_io m f w = (case m w of (Inl e, w') \<Rightarrow> (Inl e, w') | (Inr a, w') \<Rightarrow> f a w')"

section \<open>Config\<close>

text \<open>
  Modelled from the spec: the ConfigStore (\<^verbatim>\<open>gitpress/config.py\<close> is not among the
  sources). It is a persistent key/value mapping, written through on every set
  (spec, sections 3 and 4.6). The key \<^verbatim>\<open>plugins\<close> holds a mapping from plugin name to
  options, the key \<^verbatim>\<open>theme\<close> a string. A read with \<^verbatim>\<open>expect=dict\<close> yields the default
  for a missing key; for a value that is no mapping it yields the default when silent
  and is a hard error otherwise. A set stores the value and hands back the value
  stored before, which is what \<^verbatim>\<open>use_theme\<close> compares with the new theme.
\<close>

type_synonym options = "(string \<times> string) list"
type_synonym pydict = "(string \<times> options) list"

datatype cvalue = Str string | Dict pydict

type_synonym Config = "(string \<times> cvalue) list"

definition config_read :: "Config \<Rightarrow> string \<Rightarrow> cvalue option" where
  "config_read cfg key = map_of cfg key"

definition config_get_dict :: "Config \<Rightarrow> string \<Rightarrow> pydict \<Rightarrow> bool \<Rightarrow> error + pydict" where
  "config_get_dict cfg key dflt silent =
     (case map_of cfg key of
        None \<Rightarrow> Inr dflt
      | Some (Dict d) \<Rightarrow> Inr d
      | Some (Str s) \<Rightarrow> if silent then Inr dflt else Inl (ConfigError key))"

definition config_set :: "Config \<Rightarrow> string \<Rightarrow> cvalue \<Rightarrow> cvalue option \<times> Config" where
  "config_set cfg key v = (map_of cfg key, AList.update key v cfg)"

section \<open>Presenter and plugin requirement\<close>

text \<open>
  Modelled from the spec: a Presenter (\<^verbatim>\<open>gitpress/presenter.py\<close> is not among the
  sources) is the capability to build. Its \<^verbatim>\<open>build\<close> method is called with a list of
  positional Python arguments; it may raise, and returns the output path.
\<close>

datatype pyval = PyNone | PyStr string | PyBool bool

record Presenter =
  build_op :: "pyval list \<Rightarrow> path io"

datatype hint = Name string | Instance Presenter

text \<open>
  Modelled from the spec: \<^verbatim>\<open>PluginRequirement(name, options)\<close> of
  \<^verbatim>\<open>gitpress/plugin.py\<close> is a value with these two fields.
\<close>

record PluginRequirement =
  name :: string
  options :: options

section \<open>Repository\<close>

record Repository =
  directory :: path
  content_directory :: path
  config :: Config
  presenter :: "Presenter option"

text \<open>
  The collaborators and constants that \<^verbatim>\<open>repository.py\<close> imports from modules that are
  not among the sources: \<^verbatim>\<open>Config.config_file\<close>, \<^verbatim>\<open>Config(config_file)\<close>,
  \<^verbatim>\<open>Presenter.resolve\<close>, \<^verbatim>\<open>default_template\<close>, \<^verbatim>\<open>resolve_template\<close>, and from the
  Python library \<^verbatim>\<open>shutil.copytree\<close>, \<^verbatim>\<open>subprocess.call\<close> (arguments and working
  directory; the exit status is never read) and \<^verbatim>\<open>repr\<close>.
\<close>

record env =
  config_file :: string
  default_template :: string
  load_config :: "fs \<Rightarrow> path \<Rightarrow> error + Config"
  presenter_resolve :: "fs \<Rightarrow> Repository \<Rightarrow> hint option \<Rightarrow> error + Presenter"
  resolve_template :: "fs \<Rightarrow> string \<Rightarrow> error + path"
  copytree :: "path \<Rightarrow> path \<Rightarrow> unit io"
  subprocess_call :: "string list \<Rightarrow> path option \<Rightarrow> int io"
  repr :: "string \<Rightarrow> string"

definition themes_directory :: string where
  "themes_directory = ''themes''"

text \<open>\<^verbatim>\<open>Repository.__init__(directory=None, content_directory=None, presenter=None)\<close>.\<close>

definition Repository_new ::
  "env \<Rightarrow> fs \<Rightarrow> path option \<Rightarrow> path option \<Rightarrow> hint option \<Rightarrow> error + Repository" where
  "Repository_new E w dir_arg content_arg presenter_arg =
     (let dir1 = (case dir_arg of None \<Rightarrow> ''.'' | Some d \<Rightarrow> d);
          (content_dir, dir2) = resolve (getcwd w) content_arg (Some dir1);
          cfile = join dir2 (config_file E)
      in if \<not> isdir w dir2 then Inl (RepositoryNotFoundError dir2)
         else if \<not> path_exists w cfile
           then Inl (InvalidRepositoryError dir2 (''Config file not found: '' @ cfile))
         else
           (case load_config E w cfile of
              Inl e \<Rightarrow> Inl e
            | Inr cfg \<Rightarrow>
                let self = \<lparr>directory = dir2, content_directory = content_dir,
                            config = cfg, presenter = None\<rparr>
                in (case presenter_resolve E w self presenter_arg of
                      Inl e \<Rightarrow> Inl e
                    | Inr p \<Rightarrow> Inr (self\<lparr>presenter := Some p\<rparr>))))"

subsection \<open>init\<close>

text \<open>
  The three \<^verbatim>\<open>except ...: pass\<close> clauses of the existence probe: the error classes that
  the \<^verbatim>\<open>try\<close> statement catches.
\<close>

fun caught :: "error \<Rightarrow> bool" where
  "caught (RepositoryNotFoundError _) = True"
| "caught (InvalidRepositoryError _ _) = True"
| "caught (PresenterNotFoundError _) = True"
| "caught _ = False"

text \<open>The commit message of lines 97 and 98.\<close>

definition commit_message :: "env \<Rightarrow> string \<Rightarrow> string" where
  "commit_message E template =
     [CHR 0x22] @ ''Add ''
       @ (if template = default_template E then template else repr E template)
       @ '' presentation content.'' @ [CHR 0x22]"

text \<open>Lines 92 to 103: copy the template, run git three times, construct the result.\<close>

definition init_create :: "env \<Rightarrow> string \<Rightarrow> path \<Rightarrow> path \<Rightarrow> Repository io" where
  "init_create E template content_dir repo_dir w =
     (case resolve_template E w template of
        Inl e \<Rightarrow> (Inl e, w)
      | Inr template_path \<Rightarrow>
          bind_io (copytree E template_path repo_dir) (\<lambda>_.
          let message = commit_message E template in
          bind_io (subprocess_call E [''git'', ''init'', ''-q'', repo_dir] None) (\<lambda>_.
          bind_io (subprocess_call E [''git'', ''add'', ''.''] (Some repo_dir)) (\<lambda>_.
          bind_io (subprocess_call E [''git'', ''commit'', ''-q'', ''-m'', message] (Some repo_dir)) (\<lambda>_.
          (\<lambda>w'. (Repository_new E w' (Some repo_dir) (Some content_dir) None, w')))))) w)"

text \<open>
  \<^verbatim>\<open>Repository.init(self, content_directory=None, repo_directory=None, template=None)\<close>,
  a static method. The body of the \<^verbatim>\<open>try\<close> always raises: the error of the
  construction, or \<^verbatim>\<open>RepositoryAlreadyExistsError\<close> after a construction that succeeded.
\<close>

definition init ::
  "'a \<Rightarrow> path option \<Rightarrow> path option \<Rightarrow> string option \<Rightarrow> env \<Rightarrow> Repository io" where
  "init self content_arg repo_arg template_arg E w =
     (let template = (case template_arg of None \<Rightarrow> default_template E | Some t \<Rightarrow> t);
          (content_dir, repo_dir) = resolve (getcwd w) content_arg repo_arg;
          raised = (case Repository_new E w (Some repo_dir) (Some content_dir) None of
                      Inl e \<Rightarrow> e
                    | Inr _ \<Rightarrow> RepositoryAlreadyExistsError content_dir repo_dir)
      in if caught raised then init_create E template content_dir repo_dir w
         else (Inl raised, w))"

text \<open>
  A call of \<^verbatim>\<open>Repository.init\<close> with positional arguments only: Python binds them to
  the declared parameters from the left, the first of which has no default.
\<close>

definition init_call :: "string option list \<Rightarrow> env \<Rightarrow> Repository io" where
  "init_call args E w =
     (case args of
        [] \<Rightarrow> (Inl (TypeError ''init() takes at least 1 argument (0 given)''), w)
      | [a] \<Rightarrow> init a None None None E w
      | [a, b] \<Rightarrow> init a b None None E w
      | [a, b, c] \<Rightarrow> init a b c None E w
      | [a, b, c, d] \<Rightarrow> init a b c d E w
      | _ \<Rightarrow> (Inl (TypeError ''init() takes at most 4 arguments''), w))"

subsection \<open>build\<close>

definition pyval_of :: "string option \<Rightarrow> pyval" where
  "pyval_of x = (case x of None \<Rightarrow> PyNone | Some s \<Rightarrow> PyStr s)"

text \<open>\<^verbatim>\<open>Repository.build(self, out_directory=None, virtualenv=True)\<close>.\<close>

definition Repository_build :: "Repository \<Rightarrow> path option \<Rightarrow> bool \<Rightarrow> path io" where
  "Repository_build self out_directory virtualenv w =
     (case presenter self of
        None \<Rightarrow> (Inl (AttributeError ''build''), w)
      | Some p \<Rightarrow> build_op p [pyval_of out_directory] w)"

subsection \<open>Plugins\<close>

text \<open>
  \<^verbatim>\<open>Repository.plugins\<close>: the comprehension walks the keys of the mapping and looks each
  one up, which yields the entries of the association list.
\<close>

definition plugins :: "Repository \<Rightarrow> PluginRequirement list" where
  "plugins self =
     (case config_get_dict (config self) ''plugins'' [] True of
        Inl e \<Rightarrow> []
      | Inr d \<Rightarrow> map (\<lambda>(plugin, opts). \<lparr>name = plugin, options = opts\<rparr>) d)"

definition add_plugin :: "Repository \<Rightarrow> string \<Rightarrow> error + bool \<times> Repository" where
  "add_plugin self plugin =
     (case config_get_dict (config self) ''plugins'' [] False of
        Inl e \<Rightarrow> Inl e
      | Inr d \<Rightarrow>
          if plugin \<in> fst ` set d then Inr (False, self)
          else
            let d' = AList.update plugin [] d;
                (old, cfg') = config_set (config self) ''plugins'' (Dict d')
            in Inr (True, self\<lparr>config := cfg'\<rparr>))"

subsection \<open>Themes\<close>

text \<open>\<^verbatim>\<open>Repository.themes\<close>: the listing of the themes directory, or \<open>None\<close>.\<close>

definition themes :: "fs \<Rightarrow> Repository \<Rightarrow> string list option" where
  "themes w self =
     (let p = join (directory self) themes_directory
      in if isdir w p then dirs w p else None)"

text \<open>
  \<^verbatim>\<open>Repository.use_theme\<close>. The test \<^verbatim>\<open>theme not in self.themes()\<close> is a \<^verbatim>\<open>TypeError\<close>
  in Python when \<^verbatim>\<open>themes()\<close> is \<open>None\<close>.
\<close>

definition use_theme :: "fs \<Rightarrow> Repository \<Rightarrow> string \<Rightarrow> error + bool \<times> Repository" where
  "use_theme w self theme =
     (case themes w self of
        None \<Rightarrow> Inl (TypeError ''argument of type 'NoneType' is not iterable'')
      | Some ts \<Rightarrow>
          if theme \<notin> set ts then Inl (ThemeNotFoundError theme)
          else
            let (old, cfg') = config_set (config self) ''theme'' (Str theme)
            in Inr (old \<noteq> Some (Str theme), self\<lparr>config := cfg'\<rparr>))"

section \<open>Preview\<close>















section \<open>Notions used in the statements\<close>

text \<open>
  A component that \<^verbatim>\<open>normpath\<close> keeps in an absolute path: not empty, not a dot or two,
  and free of slashes.
\<close>

definition clean :: "string \<Rightarrow> bool" where
  "clean x = (x \<noteq> [] \<and> x \<noteq> ''.'' \<and> x \<noteq> ''..'' \<and> CHR ''/'' \<notin> set x)"




section \<open>Concrete worlds\<close>

definition cwd0 :: path where
  "cwd0 = ''/home/user/site''"

definition fs_empty :: fs where
  "fs_empty = \<lparr>getcwd = cwd0,
               dirs = (\<lambda>p. if p = ''/home/user/site'' \<or> p = ''.'' then Some [] else None),
               files = (\<lambda>p. False)\<rparr>"

definition fs_repo :: fs where
  "fs_repo = \<lparr>getcwd = cwd0,
              dirs = (\<lambda>p. if p = ''/home/user/site'' \<or> p = ''.'' then Some [''.gitpress'']
                          else if p = ''/home/user/site/.gitpress'' then Some [''config'', ''themes'']
                          else if p = ''/home/user/site/.gitpress/themes'' then Some [''default'', ''dark'']
                          else None),
              files = (\<lambda>p. p = ''/home/user/site/.gitpress/config'')\<rparr>"

text \<open>A repository directory that has a config file and no themes directory.\<close>

definition fs_bare :: fs where
  "fs_bare = \<lparr>getcwd = cwd0,
              dirs = (\<lambda>p. if p = ''/home/user/site'' \<or> p = ''.'' then Some [''.gitpress'']
                          else if p = ''/home/user/site/.gitpress'' then Some [''config'']
                          else None),
              files = (\<lambda>p. p = ''/home/user/site/.gitpress/config'')\<rparr>"

text \<open>The process started inside a repository directory.\<close>

definition fs_inside :: fs where
  "fs_inside = \<lparr>getcwd = ''/home/user/site/.gitpress'',
                dirs = (\<lambda>p. if p = ''/home/user/site/.gitpress'' \<or> p = ''.'' then Some [''config'']
                            else if p = ''/home/user/site'' \<or> p = ''./..'' then Some [''.gitpress'']
                            else None),
                files = (\<lambda>p. p = ''/home/user/site/.gitpress/config'' \<or> p = ''./config'')\<rparr>"

definition presenter0 :: Presenter where
  "presenter0 = \<lparr>build_op = (\<lambda>args w. (Inr ''/tmp/out'', w))\<rparr>"

text \<open>A presenter that would build elsewhere if it were handed a true second argument.\<close>

definition flag_presenter :: Presenter where
  "flag_presenter =
     \<lparr>build_op = (\<lambda>args w. if args = [PyNone, PyBool True] then (Inr ''/tmp/isolated'', w)
                              else (Inr ''/tmp/out'', w))\<rparr>"

definition repo0 :: Repository where
  "repo0 = \<lparr>directory = ''/home/user/site/.gitpress'', content_directory = ''/home/user/site'',
            config = [(''theme'', Str ''default'')], presenter = Some presenter0\<rparr>"

definition flag_repo :: Repository where
  "flag_repo = \<lparr>directory = ''/home/user/site/.gitpress'', content_directory = ''/home/user/site'',
            config = [(''theme'', Str ''default'')], presenter = Some flag_presenter\<rparr>"

text \<open>A repository in which the plugin \<open>x\<close> is installed already, with an option.\<close>

definition repo_x :: Repository where
  "repo_x = \<lparr>directory = ''/home/user/site/.gitpress'', content_directory = ''/home/user/site'',
            config = [(''plugins'', Dict [(''x'', [(''level'', ''3'')])])],
            presenter = Some presenter0\<rparr>"

text \<open>
  A \<^verbatim>\<open>copytree\<close> that refuses a destination that exists and otherwise creates it with
  a config file and one theme; a git whose \<^verbatim>\<open>init\<close> creates the \<^verbatim>\<open>.git\<close> directory and
  whose \<^verbatim>\<open>commit\<close> leaves the message file in it.
\<close>

definition copytree0 :: "path \<Rightarrow> path \<Rightarrow> unit io" where
  "copytree0 src dst w =
     (if path_exists w dst then (Inl (OtherError ''File exists''), w)
      else (Inr (),
        w\<lparr>dirs := (\<lambda>p. if p = dst then Some [''config'', ''themes'']
                         else if p = join dst ''themes'' then Some [''default'']
                         else dirs w p),
          files := (\<lambda>p. p = join dst ''config'' \<or> files w p)\<rparr>))"

definition git0 :: "string list \<Rightarrow> path option \<Rightarrow> int io" where
  "git0 args d w =
     (if take 3 args = [''git'', ''init'', ''-q''] \<and> length args = 4
      then (Inr 0, w\<lparr>dirs := (\<lambda>p. if p = join (args ! 3) ''.git'' then Some [] else dirs w p)\<rparr>)
      else if take 2 args = [''git'', ''commit'']
      then (case d of
              None \<Rightarrow> (Inr 128, w)
            | Some wd \<Rightarrow>
                (Inr 0, w\<lparr>files := (\<lambda>p. p = join wd ''.git/COMMIT_EDITMSG'' \<or> files w p)\<rparr>))
      else (Inr 0, w))"

definition env0 :: env where
  "env0 = \<lparr>config_file = ''config'',
           default_template = ''default'',
           load_config = (\<lambda>w p. Inr [(''theme'', Str ''default'')]),
           presenter_resolve = (\<lambda>w r h. Inr presenter0),
           resolve_template = (\<lambda>w t. Inr (''/usr/share/gitpress/templates/'' @ t)),
           copytree = copytree0,
           subprocess_call = git0,
           repr = (\<lambda>s. [CHR 0x27] @ s @ [CHR 0x27])\<rparr>"

text \<open>The same collaborators, with a config file that does not parse.\<close>

definition env_broken :: env where
  "env_broken = env0\<lparr>load_config := (\<lambda>w p. Inl (OtherError ''parse error''))\<rparr>"


section \<open>Facts about paths\<close>

lemma isabs_Cons: "isabs (c # s) = (c = CHR ''/'')"
  by (simp add: isabs_def)


lemma split_slash_no_slash: "x \<in> set (split_slash p) \<Longrightarrow> CHR ''/'' \<notin> set x"
  by (induction p arbitrary: x) (auto split: list.splits if_splits)




lemma fold_step_clean:
  "0 < k \<Longrightarrow> \<forall>x\<in>set acc. clean x \<Longrightarrow> \<forall>x\<in>set xs. CHR ''/'' \<notin> set x \<Longrightarrow>
   \<forall>x\<in>set (foldl (norm_step k) acc xs). clean x"
proof (induction xs arbitrary: acc)
  case Nil
  then show ?case by simp
next
  case (Cons a xs)
  have "\<forall>x\<in>set (norm_step k acc a). clean x"
    using Cons.prems by (auto simp: norm_step_def clean_def dest: in_set_butlastD)
  with Cons show ?case by simp
qed




lemma isabs_replicate: "0 < k \<Longrightarrow> isabs (replicate k CHR ''/'' @ s)"
  by (cases k) (auto simp: isabs_def)

lemma fold_step_skip: "foldl (norm_step k) acc ([] # xs) = foldl (norm_step k) acc xs"
  by (simp add: norm_step_def)



lemma normpath_abs_shape:
  assumes "isabs p"
  shows "\<exists>k N. (k = 1 \<or> k = 2) \<and> (\<forall>x\<in>set N. clean x) \<and>
           normpath p = replicate k CHR ''/'' @ join_slash N"
proof -
  from assms have ne: "p \<noteq> []" by (auto simp: isabs_def)
  define k :: nat where "k = (if take 2 p = ''//'' \<and> take 3 p \<noteq> ''///'' then 2 else 1)"
  define N where "N = foldl (norm_step k) [] (split_slash p)"
  have k: "k = 1 \<or> k = 2" by (simp add: k_def)
  then have "0 < k" by auto
  then have cl: "\<forall>x\<in>set N. clean x"
    unfolding N_def by (rule fold_step_clean) (auto dest: split_slash_no_slash)
  have "replicate k CHR ''/'' @ join_slash N \<noteq> []" using k by auto
  then have "normpath p = replicate k CHR ''/'' @ join_slash N"
    using ne assms by (simp add: normpath_def Let_def k_def N_def)
  with k cl show ?thesis by blast
qed


lemma isabs_normpath:
  assumes "isabs p"
  shows "isabs (normpath p)"
proof -
  obtain k N where "k = 1 \<or> k = 2" "normpath p = replicate k CHR ''/'' @ join_slash N"
    using normpath_abs_shape [OF assms] by blast
  then show ?thesis by (auto intro: isabs_replicate)
qed


















lemma join_abs_left: "isabs a \<Longrightarrow> isabs (join a b)"
  by (auto simp: join_def isabs_def split: list.splits)


lemma abspath_arg_abs: "isabs cwd \<Longrightarrow> isabs (if isabs p then p else join cwd p)"
  by (simp add: join_abs_left)

lemma isabs_abspath: "isabs cwd \<Longrightarrow> isabs (abspath cwd p)"
  unfolding abspath_def by (rule isabs_normpath) (rule abspath_arg_abs)


lemma join_rel_not_abs: "\<not> isabs r \<Longrightarrow> \<not> isabs (join r ''..'')"
  by (auto simp: join_def isabs_def split: list.splits)

lemma resolve_given_content:
  "c \<noteq> None \<or> r = None \<Longrightarrow>
   resolve cwd c r =
     (let a = abspath cwd (case c of None \<Rightarrow> ''.'' | Some x \<Rightarrow> x)
      in (a, join a (case r of None \<Rightarrow> default_directory | Some x \<Rightarrow> x)))"
  by (auto simp: resolve_def Let_def split: option.splits)

section \<open>Repository.resolve: what it returns\<close>

text \<open>
  C4, as amended. With the working directory absolute: when the content directory is
  given, or the repository directory is omitted, the content directory that
  \<^verbatim>\<open>resolve\<close> returns is absolute, namely \<^verbatim>\<open>abspath\<close> of the one given (of \<^verbatim>\<open>'.'\<close> when
  omitted). When the repository directory \<open>rd\<close> is given and the content directory is
  omitted, the result is \<^verbatim>\<open>(join(rd, '..'), rd)\<close>: the repository directory unchanged
  and its parent written as it stands, not normalised, so that the content directory
  is absolute exactly when \<open>rd\<close> is.
\<close>

theorem resolve_content_directory:
  assumes "isabs cwd"
  shows "(c \<noteq> None \<or> r = None \<longrightarrow>
            isabs (fst (resolve cwd c r)) \<and>
            fst (resolve cwd c r) = abspath cwd (case c of None \<Rightarrow> ''.'' | Some x \<Rightarrow> x))
       \<and> resolve cwd None (Some rd) = (join rd ''..'', rd)
       \<and> (isabs (fst (resolve cwd None (Some rd))) = isabs rd)"
proof -
  have "isabs (join rd ''..'') = isabs rd"
    by (auto simp: join_def isabs_def split: list.splits)
  moreover have "resolve cwd None (Some rd) = (join rd ''..'', rd)"
    by (simp add: resolve_def)
  ultimately show ?thesis
    using assms by (auto simp: resolve_given_content Let_def isabs_abspath)
qed

text \<open>C4, witness: a relative content directory, and a relative repository directory alone.\<close>

theorem resolve_content_directory_witness:
  "isabs cwd0
   \<and> fst (resolve cwd0 (Some ''posts'') None) = ''/home/user/site/posts''
   \<and> isabs (fst (resolve cwd0 (Some ''posts'') None))
   \<and> resolve cwd0 None (Some ''.gitpress'') = (''.gitpress/..'', ''.gitpress'')"
proof -
  have h: "isabs cwd0" by (simp add: cwd0_def isabs_def)
  have e: "abspath cwd0 ''posts'' = ''/home/user/site/posts''" by code_simp
  have j: "join ''.gitpress'' ''..'' = ''.gitpress/..''" by code_simp
  show ?thesis
    using h e j resolve_content_directory [OF h, of "Some ''posts''" None "''.gitpress''"]
    by (simp add: isabs_def)
qed

text \<open>
  C4 as stated fails: for \<^verbatim>\<open>resolve(None, '.gitpress')\<close> the content directory returned
  is \<^verbatim>\<open>'.gitpress/..'\<close>, which is not absolute.
\<close>

theorem resolve_content_directory_counterexample:
  "\<not> isabs (fst (resolve ''/home/user/site'' None (Some ''.gitpress'')))"
  by (simp add: resolve_def join_def isabs_def)






section \<open>Repository.init\<close>

lemma resolve_site_defaults:
  "resolve cwd0 None None = (''/home/user/site'', ''/home/user/site/.gitpress'')"
  by code_simp

lemma resolve_site_again:
  "resolve cwd0 (Some ''/home/user/site'') (Some ''/home/user/site/.gitpress'')
     = (''/home/user/site'', ''/home/user/site/.gitpress'')"
  by code_simp

lemma join_site_config: "join ''/home/user/site/.gitpress'' ''config'' = ''/home/user/site/.gitpress/config''"
  by code_simp

lemma new_in_fs_repo:
  "Repository_new env0 fs_repo (Some ''/home/user/site/.gitpress'') (Some ''/home/user/site'') None
     = Inr repo0"
  by (simp add: Repository_new_def fs_repo_def env0_def resolve_site_again join_site_config
        isdir_def path_exists_def repo0_def)

lemma new_in_fs_empty:
  "Repository_new env0 fs_empty (Some ''/home/user/site/.gitpress'') (Some ''/home/user/site'') None
     = Inl (RepositoryNotFoundError ''/home/user/site/.gitpress'')"
  by (simp add: Repository_new_def fs_empty_def env0_def resolve_site_again join_site_config
        isdir_def path_exists_def)

lemma new_in_broken:
  "Repository_new env_broken fs_repo (Some ''/home/user/site/.gitpress'') (Some ''/home/user/site'') None
     = Inl (OtherError ''parse error'')"
  by (simp add: Repository_new_def fs_repo_def env_broken_def env0_def resolve_site_again
        join_site_config isdir_def path_exists_def)

text \<open>
  C1. Let \<open>(c, r)\<close> be the resolved location. The probe constructs a Repository
  there. If the construction succeeds, \<^verbatim>\<open>init\<close> fails with
  \<^verbatim>\<open>RepositoryAlreadyExistsError\<close> and changes nothing. If it fails with
  \<^verbatim>\<open>RepositoryNotFoundError\<close>, \<^verbatim>\<open>InvalidRepositoryError\<close> or
  \<^verbatim>\<open>PresenterNotFoundError\<close>, the error is suppressed and \<^verbatim>\<open>init\<close> goes on to create
  the repository: it resolves the template, copies it to \<open>r\<close>, runs
  \<^verbatim>\<open>git init -q r\<close>, then \<^verbatim>\<open>git add .\<close> and \<^verbatim>\<open>git commit -q -m message\<close> in \<open>r\<close>, whatever
  their exit status, and returns the Repository constructed at \<open>(r, c)\<close> in the world
  these steps leave; a template that does not resolve or a copy that fails is the
  error of \<^verbatim>\<open>init\<close>. Any other error of the probe is the error of \<^verbatim>\<open>init\<close>,
  unchanged, and nothing is created.
\<close>

theorem init_probe:
  assumes "resolve (getcwd w) cd rd = (c, r)"
    and "tpl = (case t of None \<Rightarrow> default_template E | Some x \<Rightarrow> x)"
  shows "(\<forall>repo. Repository_new E w (Some r) (Some c) None = Inr repo \<longrightarrow>
            init s cd rd t E w = (Inl (RepositoryAlreadyExistsError c r), w))
       \<and> (\<forall>e. Repository_new E w (Some r) (Some c) None = Inl e \<longrightarrow>
            (if (\<exists>p. e = RepositoryNotFoundError p) \<or> (\<exists>p m. e = InvalidRepositoryError p m)
                 \<or> (\<exists>n. e = PresenterNotFoundError n)
             then init s cd rd t E w = init_create E tpl c r w
                \<and> (\<forall>tp u w1 k1 w2 k2 w3 k3 w4.
                      resolve_template E w tpl = Inr tp
                      \<and> copytree E tp r w = (Inr u, w1)
                      \<and> subprocess_call E [''git'', ''init'', ''-q'', r] None w1 = (Inr k1, w2)
                      \<and> subprocess_call E [''git'', ''add'', ''.''] (Some r) w2 = (Inr k2, w3)
                      \<and> subprocess_call E
                            [''git'', ''commit'', ''-q'', ''-m'', commit_message E tpl] (Some r) w3
                          = (Inr k3, w4)
                      \<longrightarrow> init s cd rd t E w = (Repository_new E w4 (Some r) (Some c) None, w4))
                \<and> (\<forall>e'. resolve_template E w tpl = Inl e' \<longrightarrow> init s cd rd t E w = (Inl e', w))
                \<and> (\<forall>tp e' w1. resolve_template E w tpl = Inr tp \<and> copytree E tp r w = (Inl e', w1)
                      \<longrightarrow> init s cd rd t E w = (Inl e', w1))
             else init s cd rd t E w = (Inl e, w)))"
proof (intro conjI allI impI)
  fix repo
  assume "Repository_new E w (Some r) (Some c) None = Inr repo"
  then show "init s cd rd t E w = (Inl (RepositoryAlreadyExistsError c r), w)"
    using assms by (simp add: init_def)
next
  fix e
  assume new: "Repository_new E w (Some r) (Some c) None = Inl e"
  let ?sup = "(\<exists>p. e = RepositoryNotFoundError p) \<or> (\<exists>p m. e = InvalidRepositoryError p m)
                 \<or> (\<exists>n. e = PresenterNotFoundError n)"
  have c: "caught e = ?sup" by (cases e) simp_all
  have i: "init s cd rd t E w = (if caught e then init_create E tpl c r w else (Inl e, w))"
    using assms new by (simp add: init_def)
  show "if ?sup
        then init s cd rd t E w = init_create E tpl c r w
           \<and> (\<forall>tp u w1 k1 w2 k2 w3 k3 w4.
                 resolve_template E w tpl = Inr tp
                 \<and> copytree E tp r w = (Inr u, w1)
                 \<and> subprocess_call E [''git'', ''init'', ''-q'', r] None w1 = (Inr k1, w2)
                 \<and> subprocess_call E [''git'', ''add'', ''.''] (Some r) w2 = (Inr k2, w3)
                 \<and> subprocess_call E
                       [''git'', ''commit'', ''-q'', ''-m'', commit_message E tpl] (Some r) w3
                     = (Inr k3, w4)
                 \<longrightarrow> init s cd rd t E w = (Repository_new E w4 (Some r) (Some c) None, w4))
           \<and> (\<forall>e'. resolve_template E w tpl = Inl e' \<longrightarrow> init s cd rd t E w = (Inl e', w))
           \<and> (\<forall>tp e' w1. resolve_template E w tpl = Inr tp \<and> copytree E tp r w = (Inl e', w1)
                 \<longrightarrow> init s cd rd t E w = (Inl e', w1))
        else init s cd rd t E w = (Inl e, w)"
  proof (cases ?sup)
    case True
    then have i': "init s cd rd t E w = init_create E tpl c r w" using i c by simp
    show ?thesis
      using True by (simp add: i' init_create_def bind_io_def Let_def)
  next
    case False
    then show ?thesis using i c by simp
  qed
qed

lemma created_world:
  "\<exists>w'. init_create env0 ''default'' ''/home/user/site'' ''/home/user/site/.gitpress'' fs_empty
          = (Inr repo0, w')
        \<and> dirs w' ''/home/user/site/.gitpress'' = Some [''config'', ''themes'']
        \<and> dirs w' ''/home/user/site/.gitpress/.git'' = Some []
        \<and> files w' ''/home/user/site/.gitpress/config''
        \<and> files w' ''/home/user/site/.gitpress/.git/COMMIT_EDITMSG''"
proof -
  have j1: "join ''/home/user/site/.gitpress'' ''themes'' = ''/home/user/site/.gitpress/themes''"
    by code_simp
  have j2: "join ''/home/user/site/.gitpress'' ''.git'' = ''/home/user/site/.gitpress/.git''"
    by code_simp
  have j3: "join ''/home/user/site/.gitpress'' ''.git/COMMIT_EDITMSG''
              = ''/home/user/site/.gitpress/.git/COMMIT_EDITMSG''"
    by code_simp
  show ?thesis
    by (simp add: init_create_def bind_io_def Let_def env0_def copytree0_def git0_def
        fs_empty_def path_exists_def isdir_def Repository_new_def resolve_site_again
        join_site_config j1 j2 j3 repo0_def commit_message_def)
qed

text \<open>
  C1, witness: a site that has a repository, a site that has none, where the
  repository is created, with its config file and the traces of git, and returned,
  and a repository whose config file does not parse.
\<close>

theorem init_probe_witness:
  "init () None None None env0 fs_repo
     = (Inl (RepositoryAlreadyExistsError ''/home/user/site'' ''/home/user/site/.gitpress''), fs_repo)
   \<and> (\<exists>w'. init () None None None env0 fs_empty = (Inr repo0, w')
          \<and> dirs w' ''/home/user/site/.gitpress'' = Some [''config'', ''themes'']
          \<and> dirs w' ''/home/user/site/.gitpress/.git'' = Some []
          \<and> files w' ''/home/user/site/.gitpress/config''
          \<and> files w' ''/home/user/site/.gitpress/.git/COMMIT_EDITMSG'')
   \<and> init () None None None env_broken fs_repo = (Inl (OtherError ''parse error''), fs_repo)"
proof -
  have r1: "resolve (getcwd fs_repo) None None = (''/home/user/site'', ''/home/user/site/.gitpress'')"
    by (simp add: fs_repo_def resolve_site_defaults)
  have r2: "resolve (getcwd fs_empty) None None = (''/home/user/site'', ''/home/user/site/.gitpress'')"
    by (simp add: fs_empty_def resolve_site_defaults)
  have d: "''default'' = (case None of None \<Rightarrow> default_template env0 | Some x \<Rightarrow> x)"
    by (simp add: env0_def)
  have d': "''default'' = (case None of None \<Rightarrow> default_template env_broken | Some x \<Rightarrow> x)"
    by (simp add: env_broken_def env0_def)
  have 1: "init () None None None env0 fs_repo
     = (Inl (RepositoryAlreadyExistsError ''/home/user/site'' ''/home/user/site/.gitpress''), fs_repo)"
    using init_probe [OF r1 d, of "()"] new_in_fs_repo by simp
  have "init () None None None env0 fs_empty
          = init_create env0 ''default'' ''/home/user/site'' ''/home/user/site/.gitpress'' fs_empty"
    using init_probe [OF r2 d, of "()"] new_in_fs_empty by simp
  then have 2: "\<exists>w'. init () None None None env0 fs_empty = (Inr repo0, w')
          \<and> dirs w' ''/home/user/site/.gitpress'' = Some [''config'', ''themes'']
          \<and> dirs w' ''/home/user/site/.gitpress/.git'' = Some []
          \<and> files w' ''/home/user/site/.gitpress/config''
          \<and> files w' ''/home/user/site/.gitpress/.git/COMMIT_EDITMSG''"
    using created_world by simp
  have 3: "init () None None None env_broken fs_repo = (Inl (OtherError ''parse error''), fs_repo)"
    using init_probe [OF r1 d', of "()"] new_in_broken by simp
  from 1 2 3 show ?thesis by (intro conjI)
qed

text \<open>
  C9. The first parameter of \<^verbatim>\<open>init\<close> is never used: two calls that differ in it alone
  have the same effects and the same result. A caller who passes content directory,
  repository directory and template by position therefore has the first bound to
  the unused parameter, the second taken as the content directory, the third as the
  repository directory, and the template left at its default.
\<close>

theorem init_ignores_self:
  "init (s :: 'a) cd rd t E w = init (s' :: 'b) cd rd t E w
   \<and> init_call [x, y, z] E w = init s y z None E w"
  by (simp add: init_def init_call_def)

text \<open>C9, witness.\<close>

theorem init_ignores_self_witness:
  "init (Some ''posts'') None None None env0 fs_repo = init () None None None env0 fs_repo
   \<and> init_call [Some ''posts'', Some ''meta'', Some ''blog''] env0 fs_repo
       = init (Some ''posts'') (Some ''meta'') (Some ''blog'') None env0 fs_repo"
  by (rule init_ignores_self)

section \<open>Repository.build\<close>

text \<open>
  C2, as amended. For a repository with a resolved presenter \<open>p\<close>, \<^verbatim>\<open>build\<close> calls the
  presenter's build operation with the output directory as its only argument and
  returns what that call returns, result and effects, unchanged. The isolation flag
  (\<^verbatim>\<open>virtualenv\<close>) is accepted and not handed on: the result is the same for both of
  its values.
\<close>

theorem build_delegates:
  assumes "presenter self = Some p"
  shows "Repository_build self out v w = build_op p [pyval_of out] w
       \<and> Repository_build self out v w = Repository_build self out v' w"
  using assms by (simp add: Repository_build_def)

text \<open>C2, witness: the presenter that always returns \<^verbatim>\<open>/tmp/out\<close>.\<close>

theorem build_delegates_witness:
  "presenter repo0 = Some presenter0
   \<and> Repository_build repo0 None True fs_repo = (Inr ''/tmp/out'', fs_repo)
   \<and> Repository_build repo0 None True fs_repo = Repository_build repo0 None False fs_repo"
proof -
  have h: "presenter repo0 = Some presenter0" by (simp add: repo0_def)
  have b: "build_op presenter0 [pyval_of None] fs_repo = (Inr ''/tmp/out'', fs_repo)"
    by (simp add: presenter0_def)
  note t = build_delegates [OF h, of None True fs_repo False]
  have e1: "Repository_build repo0 None True fs_repo = (Inr ''/tmp/out'', fs_repo)"
    using t b by simp
  have e2: "Repository_build repo0 None True fs_repo = Repository_build repo0 None False fs_repo"
    using t by (rule conjunct2)
  show ?thesis using h e1 e2 by (intro conjI)
qed

text \<open>
  C2 as stated fails: a presenter that builds to \<^verbatim>\<open>/tmp/isolated\<close> when it is handed the
  output directory and a true flag still builds to \<^verbatim>\<open>/tmp/out\<close> under
  \<^verbatim>\<open>build(None, True)\<close>, because the flag never reaches it.
\<close>

theorem build_delegates_counterexample:
  "fst (build_op flag_presenter [pyval_of None, PyBool True] fs_repo) = Inr ''/tmp/isolated''
   \<and> fst (Repository_build flag_repo None True fs_repo) = Inr ''/tmp/out''
   \<and> Repository_build flag_repo None True fs_repo
       \<noteq> build_op flag_presenter [pyval_of None, PyBool True] fs_repo"
  by (simp add: Repository_build_def flag_repo_def flag_presenter_def pyval_of_def)

section \<open>Repository.preview\<close>





section \<open>Themes and plugins\<close>

lemma map_of_update_same: "map_of (AList.update k v al) k = Some v"
  by (simp add: update_conv')

lemma update_fresh: "k \<notin> fst ` set al \<Longrightarrow> AList.update k v al = al @ [(k, v)]"
  by (induction al) auto

text \<open>
  C5. What the code does for a theme that is not installed: where the themes
  directory is missing, \<^verbatim>\<open>themes()\<close> is \<open>None\<close> and \<^verbatim>\<open>use_theme\<close> ends in Python's
  \<^verbatim>\<open>TypeError\<close>, whatever the theme, and not in \<^verbatim>\<open>ThemeNotFoundError\<close> as the claim
  asks. Where the directory exists and does not list the theme, the error is
  \<^verbatim>\<open>ThemeNotFoundError\<close>.
\<close>

theorem use_theme_without_themes:
  "(themes w self = None \<longrightarrow>
      use_theme w self t = Inl (TypeError ''argument of type 'NoneType' is not iterable''))
   \<and> (\<forall>ts. themes w self = Some ts \<and> t \<notin> set ts \<longrightarrow>
      use_theme w self t = Inl (ThemeNotFoundError t))"
  by (simp add: use_theme_def)

lemma join_themes: "join ''/home/user/site/.gitpress'' ''themes'' = ''/home/user/site/.gitpress/themes''"
  by code_simp

lemma themes_bare: "themes fs_bare repo0 = None"
  by (simp add: themes_def repo0_def themes_directory_def join_themes isdir_def fs_bare_def)

lemma themes_repo: "themes fs_repo repo0 = Some [''default'', ''dark'']"
  by (simp add: themes_def repo0_def themes_directory_def join_themes isdir_def fs_repo_def)

text \<open>
  C5, the failing input: a repository directory without a themes directory, and the
  theme \<^verbatim>\<open>default\<close>. Beside it, a theme missing from an existing themes directory.
\<close>

theorem use_theme_without_themes_witness:
  "themes fs_bare repo0 = None
   \<and> use_theme fs_bare repo0 ''default''
       = Inl (TypeError ''argument of type 'NoneType' is not iterable'')
   \<and> use_theme fs_repo repo0 ''light'' = Inl (ThemeNotFoundError ''light'')"
proof -
  have n: "''light'' \<notin> set [''default'', ''dark'']" by simp
  show ?thesis
    using use_theme_without_themes [of fs_bare repo0 "''default''"]
      use_theme_without_themes [of fs_repo repo0 "''light''"] themes_bare themes_repo n
    by blast
qed

text \<open>
  C6. For a theme \<open>t\<close> among the installed themes, \<^verbatim>\<open>use_theme(t)\<close> succeeds, stores
  \<open>t\<close> under the config key \<^verbatim>\<open>theme\<close>, and returns whether the value stored before
  differed from \<open>t\<close>: true when it changed, false when \<open>t\<close> was the active theme
  already. Afterwards a read of the key gives \<open>t\<close>, and a second \<^verbatim>\<open>use_theme(t)\<close>
  returns false.
\<close>

theorem use_theme_installed:
  assumes "themes w self = Some ts" and "t \<in> set ts"
  shows "\<exists>self'. use_theme w self t = Inr (config_read (config self) ''theme'' \<noteq> Some (Str t), self')
           \<and> config_read (config self') ''theme'' = Some (Str t)
           \<and> use_theme w self' t = Inr (False, self')"
proof -
  let ?s = "self\<lparr>config := AList.update ''theme'' (Str t) (config self)\<rparr>"
  have 1: "use_theme w self t = Inr (config_read (config self) ''theme'' \<noteq> Some (Str t), ?s)"
    using assms by (simp add: use_theme_def config_set_def config_read_def)
  have 2: "config_read (config ?s) ''theme'' = Some (Str t)"
    by (simp add: config_read_def map_of_update_same)
  have "themes w ?s = Some ts" using assms(1) by (simp add: themes_def)
  then have 3: "use_theme w ?s t = Inr (False, ?s)"
    using assms(2) by (simp add: use_theme_def config_set_def map_of_update_same)
  from 1 2 3 show ?thesis by blast
qed

text \<open>C6, witness: switching to another installed theme, and to the active one.\<close>

theorem use_theme_installed_witness:
  "themes fs_repo repo0 = Some [''default'', ''dark'']
   \<and> (\<exists>r. use_theme fs_repo repo0 ''dark'' = Inr (True, r)
          \<and> config_read (config r) ''theme'' = Some (Str ''dark''))
   \<and> (\<exists>r. use_theme fs_repo repo0 ''default'' = Inr (False, r)
          \<and> config_read (config r) ''theme'' = Some (Str ''default''))"
proof -
  have a: "''dark'' \<in> set [''default'', ''dark'']" by simp
  have b: "''default'' \<in> set [''default'', ''dark'']" by simp
  have c: "config_read (config repo0) ''theme'' = Some (Str ''default'')"
    by (simp add: config_read_def repo0_def)
  show ?thesis
    using use_theme_installed [OF themes_repo a] use_theme_installed [OF themes_repo b]
      themes_repo c
    by auto
qed

text \<open>
  C8, as amended. For a repository whose stored plugins value is a mapping (or is
  missing) and does not contain \<open>x\<close>: \<^verbatim>\<open>add_plugin(x)\<close> returns true, a second
  \<^verbatim>\<open>add_plugin(x)\<close> returns false and leaves the repository as it is, and afterwards
  \<^verbatim>\<open>plugins()\<close> has exactly one entry named \<open>x\<close>, with empty options, which is what
  the config store holds.
\<close>

theorem add_plugin_twice:
  assumes "config_get_dict (config self) ''plugins'' [] False = Inr d"
    and "x \<notin> fst ` set d"
  shows "\<exists>self'. add_plugin self x = Inr (True, self')
           \<and> add_plugin self' x = Inr (False, self')
           \<and> filter (\<lambda>q. name q = x) (plugins self') = [\<lparr>name = x, options = []\<rparr>]
           \<and> config_read (config self') ''plugins'' = Some (Dict (d @ [(x, [])]))"
proof -
  let ?d = "d @ [(x, [])]"
  let ?s = "self\<lparr>config := AList.update ''plugins'' (Dict ?d) (config self)\<rparr>"
  have 1: "add_plugin self x = Inr (True, ?s)"
    using assms by (simp add: add_plugin_def config_set_def update_fresh)
  have g: "config_get_dict (AList.update ''plugins'' (Dict ?d) (config self)) ''plugins'' [] silent
             = Inr ?d" for silent
    by (simp add: config_get_dict_def map_of_update_same)
  have 2: "add_plugin ?s x = Inr (False, ?s)"
    by (simp add: add_plugin_def g)
  have "filter (\<lambda>q. name q = x) (map (\<lambda>(plugin, opts). \<lparr>name = plugin, options = opts\<rparr>) d) = []"
    using assms(2) by (induction d) auto
  then have 3: "filter (\<lambda>q. name q = x) (plugins ?s) = [\<lparr>name = x, options = []\<rparr>]"
    by (simp add: plugins_def g)
  have 4: "config_read (config ?s) ''plugins'' = Some (Dict ?d)"
    by (simp add: config_read_def map_of_update_same)
  from 1 2 3 4 show ?thesis by blast
qed

text \<open>C8, witness: a repository without plugins.\<close>

theorem add_plugin_twice_witness:
  "config_get_dict (config repo0) ''plugins'' [] False = Inr []
   \<and> (\<exists>r. add_plugin repo0 ''x'' = Inr (True, r) \<and> add_plugin r ''x'' = Inr (False, r)
          \<and> filter (\<lambda>q. name q = ''x'') (plugins r) = [\<lparr>name = ''x'', options = []\<rparr>])"
proof -
  have g: "config_get_dict (config repo0) ''plugins'' [] False = Inr []"
    by (simp add: config_get_dict_def repo0_def)
  have n: "''x'' \<notin> fst ` set ([] :: pydict)" by simp
  show ?thesis
    using add_plugin_twice [OF g n] g by auto
qed

text \<open>
  C8 as stated fails for a repository in which \<open>x\<close> is installed already with an
  option: the first \<^verbatim>\<open>add_plugin(x)\<close> returns false, and the entry keeps its option.
\<close>

theorem add_plugin_twice_counterexample:
  "add_plugin repo_x ''x'' = Inr (False, repo_x)
   \<and> plugins repo_x = [\<lparr>name = ''x'', options = [(''level'', ''3'')]\<rparr>]"
  by (simp add: add_plugin_def plugins_def config_get_dict_def repo_x_def)

section \<open>The constructor\<close>

lemma Repository_new_paths:
  assumes "Repository_new E w da ca h = Inr r"
  shows "(content_directory r, directory r)
           = resolve (getcwd w) ca (Some (case da of None \<Rightarrow> ''.'' | Some d \<Rightarrow> d))"
proof -
  obtain c d where res: "resolve (getcwd w) ca (Some (case da of None \<Rightarrow> ''.'' | Some d \<Rightarrow> d)) = (c, d)"
    by (cases "resolve (getcwd w) ca (Some (case da of None \<Rightarrow> ''.'' | Some d \<Rightarrow> d))") auto
  from assms have "content_directory r = c \<and> directory r = d"
    by (auto simp: Repository_new_def Let_def res split: if_splits sum.splits)
  with res show ?thesis by simp
qed

lemma resolve_dot: "resolve cwd None (Some ''.'') = (''./..'', ''.'')"
  by (simp add: resolve_def join_def isabs_def)

lemma join_default_not_dot: "''.'' \<noteq> join a default_directory"
  by (auto simp: join_def isabs_def default_directory_def dest: arg_cong [where f = length])

lemma join_dot_not_default: "join a ''.'' \<noteq> join a default_directory"
  by (simp add: join_def isabs_def default_directory_def)

lemma resolve_dot_not_default:
  "snd (resolve cwd ca (Some ''.'')) \<noteq> snd (resolve cwd ca None)"
  by (cases ca) (simp_all add: resolve_def Let_def join_default_not_dot join_dot_not_default
      join_def [of "''.''" "''..''"] isabs_def)

text \<open>
  C10. A Repository constructed with all arguments omitted has the metadata
  directory \<^verbatim>\<open>'.'\<close> and the content directory \<^verbatim>\<open>'./..'\<close>, its parent; it is
  \<^verbatim>\<open>'.'\<close> that must be a directory and hold the config file. With the directory omitted, whatever the content
  directory, the metadata directory is never the one that \<^verbatim>\<open>resolve\<close> gives for an
  omitted repository directory (the \<^verbatim>\<open>.gitpress\<close> subdirectory): the constructor
  always hands \<^verbatim>\<open>resolve\<close> a repository directory, so the branch of \<^verbatim>\<open>resolve\<close> that
  supplies the default is never taken from a construction.
\<close>

theorem constructor_defaults:
  "(\<forall>r. Repository_new E w None None h = Inr r \<longrightarrow>
        directory r = ''.'' \<and> content_directory r = ''./..'')
   \<and> (\<not> isdir w ''.'' \<longrightarrow> Repository_new E w None None h = Inl (RepositoryNotFoundError ''.''))
   \<and> (isdir w ''.'' \<and> \<not> path_exists w (join ''.'' (config_file E)) \<longrightarrow>
        Repository_new E w None None h
          = Inl (InvalidRepositoryError ''.''
                  (''Config file not found: '' @ join ''.'' (config_file E))))
   \<and> (\<forall>r. Repository_new E w None ca h = Inr r \<longrightarrow>
        directory r \<noteq> snd (resolve (getcwd w) ca None))
   \<and> (\<forall>r. Repository_new E w da ca h = Inr r \<longrightarrow>
        (\<exists>d. (content_directory r, directory r) = resolve (getcwd w) ca (Some d)))"
proof -
  have 1: "directory r = ''.'' \<and> content_directory r = ''./..''"
    if "Repository_new E w None None h = Inr r" for r
    using Repository_new_paths [OF that] by (simp add: resolve_dot)
  have 2: "Repository_new E w None None h = Inl (RepositoryNotFoundError ''.'')"
    if "\<not> isdir w ''.''"
    using that by (simp add: Repository_new_def resolve_dot)
  have 3: "directory r \<noteq> snd (resolve (getcwd w) ca None)"
    if "Repository_new E w None ca h = Inr r" for r
  proof -
    have "directory r = snd (resolve (getcwd w) ca (Some ''.''))"
      using Repository_new_paths [OF that] by (simp add: prod_eq_iff)
    then show ?thesis by (simp add: resolve_dot_not_default)
  qed
  have 4: "\<exists>d. (content_directory r, directory r) = resolve (getcwd w) ca (Some d)"
    if "Repository_new E w da ca h = Inr r" for r
    using Repository_new_paths [OF that] by blast
  have 5: "Repository_new E w None None h
             = Inl (InvalidRepositoryError ''.''
                     (''Config file not found: '' @ join ''.'' (config_file E)))"
    if "isdir w ''.'' \<and> \<not> path_exists w (join ''.'' (config_file E))"
    using that by (simp add: Repository_new_def resolve_dot)
  from 1 2 3 4 5 show ?thesis by blast
qed

lemma new_inside:
  "Repository_new env0 fs_inside None None None
     = Inr \<lparr>directory = ''.'', content_directory = ''./..'',
            config = [(''theme'', Str ''default'')], presenter = Some presenter0\<rparr>"
  by (simp add: Repository_new_def resolve_dot fs_inside_def env0_def isdir_def path_exists_def
        join_def isabs_def)

text \<open>
  C10, witness: a construction inside a repository directory, and one in a site whose
  repository is the \<^verbatim>\<open>.gitpress\<close> subdirectory, where it finds no config file in
  \<^verbatim>\<open>'.'\<close> and fails.
\<close>

theorem constructor_defaults_witness:
  "(\<exists>r. Repository_new env0 fs_inside None None None = Inr r
        \<and> directory r = ''.'' \<and> content_directory r = ''./..''
        \<and> directory r \<noteq> snd (resolve (getcwd fs_inside) None None))
   \<and> snd (resolve (getcwd fs_inside) None None) = ''/home/user/site/.gitpress/.gitpress''
   \<and> Repository_new env0 fs_repo None None None
       = Inl (InvalidRepositoryError ''.'' ''Config file not found: ./config'')"
proof -
  have j: "join ''.'' (config_file env0) = ''./config''"
    by (simp add: env0_def join_def isabs_def)
  have n: "isdir fs_repo ''.'' \<and> \<not> path_exists fs_repo (join ''.'' (config_file env0))"
    by (simp add: j isdir_def path_exists_def fs_repo_def)
  have s: "snd (resolve (getcwd fs_inside) None None) = ''/home/user/site/.gitpress/.gitpress''"
    by code_simp
  show ?thesis
    using constructor_defaults [where E = env0 and w = fs_inside and h = None and ca = None]
      constructor_defaults [where E = env0 and w = fs_repo and h = None] new_inside n s j
    by auto
qed

end
